theory Spec2Isabelle
  imports Complex_Main
begin

section \<open>Python values and their text\<close>

text \<open>
  The values that \<^verbatim>\<open>Main.py\<close> puts into a record (\<^verbatim>\<open>data_dict\<close>) or gets back from a
  loaded frame: \<^verbatim>\<open>bool\<close>, \<^verbatim>\<open>int\<close>, \<^verbatim>\<open>float\<close> and \<^verbatim>\<open>str\<close>, and the missing value
  \<^verbatim>\<open>NaN\<close> that pandas puts where a cell is empty. A finite float is the rational number
  it denotes; the two infinities (\<open>PInf True\<close> is the negative one) only come out of
  parsing a cell such as \<^verbatim>\<open>inf\<close>.
\<close>

datatype pyval = PNaN | PBool bool | PInt int | PFloat rat | PInf bool | PStr string

text \<open>A record is a Python \<^verbatim>\<open>dict\<close>: its keys, in insertion order, with their values.\<close>

type_synonym pydict = "(string \<times> pyval) list"

definition digit_char :: "nat \<Rightarrow> char" where
  "digit_char d = ''0123456789'' ! d"

fun str_nat :: "nat \<Rightarrow> string" where
  "str_nat n = (if n < 10 then [digit_char n] else str_nat (n div 10) @ [digit_char (n mod 10)])"

declare str_nat.simps [simp del]

text \<open>\<^verbatim>\<open>str(i)\<close> for a Python \<^verbatim>\<open>int\<close>.\<close>

definition str_int :: "int \<Rightarrow> string" where
  "str_int i = (if i < 0 then CHR ''-'' # str_nat (nat (- i)) else str_nat (nat i))"

text \<open>\<^verbatim>\<open>s.zfill(n)\<close> for a string of digits.\<close>

definition zfill :: "nat \<Rightarrow> string \<Rightarrow> string" where
  "zfill n s = replicate (n - length s) CHR ''0'' @ s"

text \<open>
  The text pandas writes for one cell (\<^verbatim>\<open>to_csv\<close> with its defaults: \<^verbatim>\<open>na_rep=''\<close>, no
  float format). The text of a finite float is Python's \<^verbatim>\<open>repr\<close>, the shortest decimal
  that reads back as the same binary64; it is the parameter \<open>float_repr\<close> of everything
  that writes.
\<close>

fun str_cell :: "(rat \<Rightarrow> string) \<Rightarrow> pyval \<Rightarrow> string" where
  "str_cell float_repr PNaN = ''''"
| "str_cell float_repr (PBool b) = (if b then ''True'' else ''False'')"
| "str_cell float_repr (PInt i) = str_int i"
| "str_cell float_repr (PFloat x) = float_repr x"
| "str_cell float_repr (PInf neg) = (if neg then ''-inf'' else ''inf'')"
| "str_cell float_repr (PStr s) = s"


section \<open>Frames and the record store\<close>

text \<open>
  A \<^verbatim>\<open>DataFrame\<close>: the column names and the rows, each row with one value per column.
  \<open>index_cols\<close> holds, per row, the values of the index columns that \<^verbatim>\<open>read_csv\<close> makes
  of surplus leading cells; a frame built from a record has none.
\<close>

record dataframe =
  columns :: "string list"
  index_cols :: "pyval list list"
  rows :: "pyval list list"

text \<open>\<^verbatim>\<open>pd.DataFrame()\<close>\<close>

definition DataFrame_empty :: dataframe where
  "DataFrame_empty = \<lparr>columns = [], index_cols = [], rows = []\<rparr>"

text \<open>\<^verbatim>\<open>pd.DataFrame([data_dict])\<close>: one row, the columns are the keys of the record.\<close>

definition DataFrame :: "pydict \<Rightarrow> dataframe" where
  "DataFrame data_dict =
     \<lparr>columns = map fst data_dict, index_cols = [[]], rows = [map snd data_dict]\<rparr>"

text \<open>\<^verbatim>\<open>df.empty\<close>: no column or no row.\<close>

definition empty :: "dataframe \<Rightarrow> bool" where
  "empty df \<longleftrightarrow> columns df = [] \<or> rows df = []"

text \<open>
  A CSV file is its lines, each line the list of its cells (the quoting that keeps a
  comma, a quote or a line break inside one cell is pandas's and is not modelled). The
  file system maps a path to the file there.
\<close>

type_synonym csv_line = "string list"
type_synonym filesystem = "string \<rightharpoonup> csv_line list"

definition isfile :: "filesystem \<Rightarrow> string \<Rightarrow> bool" where
  "isfile fs path \<longleftrightarrow> fs path \<noteq> None"

datatype file_mode = Mode_w | Mode_a

text \<open>
  \<^verbatim>\<open>df.to_csv(path, mode=..., header=..., index=False)\<close>: the header line if asked for,
  then one line per row; mode \<^verbatim>\<open>'w'\<close> replaces the file, mode \<^verbatim>\<open>'a'\<close> adds to its end
  (and creates it when it is not there).
\<close>

definition to_csv ::
  "(rat \<Rightarrow> string) \<Rightarrow> dataframe \<Rightarrow> string \<Rightarrow> file_mode \<Rightarrow> bool \<Rightarrow> filesystem \<Rightarrow> filesystem" where
  "to_csv float_repr df path mode header fs =
     (let lines = (if header then [columns df] else []) @ map (map (str_cell float_repr)) (rows df)
      in case mode of
           Mode_w \<Rightarrow> fs(path \<mapsto> lines)
         | Mode_a \<Rightarrow> fs(path \<mapsto> (case fs path of None \<Rightarrow> [] | Some old \<Rightarrow> old) @ lines))"

text \<open>\<^verbatim>\<open>save_to_csv(data_dict, csv_file)\<close>, lines 18 to 24.\<close>

definition save_to_csv :: "(rat \<Rightarrow> string) \<Rightarrow> pydict \<Rightarrow> string \<Rightarrow> filesystem \<Rightarrow> filesystem" where
  "save_to_csv float_repr data_dict csv_file fs =
     (let df_new = DataFrame data_dict
      in if \<not> isfile fs csv_file
         then to_csv float_repr df_new csv_file Mode_w True fs
         else to_csv float_repr df_new csv_file Mode_a False fs)"

text \<open>The line that an append writes for a record: the text of its values, in key order.\<close>

definition data_row :: "(rat \<Rightarrow> string) \<Rightarrow> pydict \<Rightarrow> csv_line" where
  "data_row float_repr data_dict = map (str_cell float_repr \<circ> snd) data_dict"


section \<open>Binary64 arithmetic\<close>

text \<open>
  A Python \<^verbatim>\<open>float\<close> is a binary64 number. \<open>float64 x\<close> is the binary64 nearest to the
  rational \<open>x\<close> (ties to the even mantissa), so that \<^verbatim>\<open>a - b\<close> and \<^verbatim>\<open>a / b\<close> on floats
  are the exact result rounded once. The exponent range is not modelled: no overflow to
  infinity and no subnormal numbers.
\<close>

fun bit_length :: "nat \<Rightarrow> nat" where
  "bit_length n = (if n = 0 then 0 else Suc (bit_length (n div 2)))"

declare bit_length.simps [simp del]

text \<open>For \<open>0 < x\<close>, the \<open>e\<close> with \<open>2 ^ e \<le> x < 2 ^ (e + 1)\<close>.\<close>

definition ilog2 :: "rat \<Rightarrow> int" where
  "ilog2 x = (if 1 \<le> x then int (bit_length (nat \<lfloor>x\<rfloor>)) - 1
              else - int (bit_length (nat (\<lceil>1 / x\<rceil> - 1))))"

definition pow2 :: "int \<Rightarrow> rat" where
  "pow2 e = (if 0 \<le> e then 2 ^ nat e else 1 / 2 ^ nat (- e))"

definition round_half_even :: "rat \<Rightarrow> int" where
  "round_half_even q =
     (let f = \<lfloor>q\<rfloor>; r = q - of_int f
      in if r < 1 / 2 then f else if 1 / 2 < r then f + 1 else if even f then f else f + 1)"

definition float64 :: "rat \<Rightarrow> rat" where
  "float64 x =
     (if x = 0 then 0
      else let ulp = pow2 (ilog2 \<bar>x\<bar> - 52) in of_int (round_half_even (x / ulp)) * ulp)"

definition float_sub :: "rat \<Rightarrow> rat \<Rightarrow> rat" where
  "float_sub a b = float64 (a - b)"

definition float_div :: "rat \<Rightarrow> rat \<Rightarrow> rat" where
  "float_div a b = float64 (a / b)"


section \<open>Reading a store\<close>

text \<open>
  \<^verbatim>\<open>pd.read_csv(csv_file)\<close> with its defaults. Each column gets the first type that fits
  all of its cells, tried in the order integer, float, boolean, text; a cell whose text
  is one of pandas's missing-value markers is \<^verbatim>\<open>NaN\<close> whatever the type, and an integer
  column with such a cell becomes a float column. The model leaves out: integers beyond
  the signed 64-bit range (read here as floats), the renaming of an empty or repeated
  column name, and the last-digit error of pandas's fast float parser (a float cell is
  read here as the binary64 nearest to its decimal text).
\<close>

datatype pyerror = FileNotFoundError | EmptyDataError | ParserError | KeyError string | TypeError

definition STR_NA_VALUES :: "string list" where
  "STR_NA_VALUES =
     [''-1.#IND'', ''1.#QNAN'', ''1.#IND'', ''-1.#QNAN'', ''#N/A N/A'', ''#N/A'', ''N/A'',
      ''n/a'', ''NA'', ''<NA>'', ''#NA'', ''NULL'', ''null'', ''NaN'', ''-NaN'', ''nan'',
      ''-nan'', ''None'', '''']"

definition is_na :: "string \<Rightarrow> bool" where
  "is_na s \<longleftrightarrow> s \<in> set STR_NA_VALUES"

definition is_space :: "char \<Rightarrow> bool" where
  "is_space c \<longleftrightarrow> c \<in> set [CHR '' '', CHR 0x09, CHR 0x0A, CHR 0x0B, CHR 0x0C, CHR 0x0D]"

definition is_digit :: "char \<Rightarrow> bool" where
  "is_digit c \<longleftrightarrow> c \<in> set ''0123456789''"

definition strip :: "string \<Rightarrow> string" where
  "strip s = rev (dropWhile is_space (rev (dropWhile is_space s)))"

definition digit_val :: "char \<Rightarrow> nat" where
  "digit_val c = of_char c - 48"

definition nat_of_digits :: "string \<Rightarrow> nat" where
  "nat_of_digits ds = foldl (\<lambda>a c. 10 * a + digit_val c) 0 ds"

text \<open>An optional sign in front: whether it is a minus, and the rest.\<close>

definition take_sign :: "string \<Rightarrow> bool \<times> string" where
  "take_sign s =
     (case s of
        [] \<Rightarrow> (False, [])
      | c # r \<Rightarrow> if c = CHR ''-'' then (True, r) else if c = CHR ''+'' then (False, r) else (False, s))"

text \<open>
  A cell is an integer when, blanks at both ends aside, it is an optional sign and one
  or more digits, and the number fits 64 bits.
\<close>

definition parse_int64 :: "string \<Rightarrow> int option" where
  "parse_int64 s =
     (let (neg, ds) = take_sign (strip s);
          i = (if neg then - int (nat_of_digits ds) else int (nat_of_digits ds))
      in if ds \<noteq> [] \<and> list_all is_digit ds \<and> - (2 ^ 63) \<le> i \<and> i < 2 ^ 63 then Some i else None)"

definition pow10 :: "int \<Rightarrow> rat" where
  "pow10 e = (if 0 \<le> e then 10 ^ nat e else 1 / 10 ^ nat (- e))"

text \<open>The exponent part of a float, if there is one with digits: its value, and the rest.\<close>

definition take_exponent :: "string \<Rightarrow> int \<times> string" where
  "take_exponent s =
     (case s of
        [] \<Rightarrow> (0, [])
      | c # r \<Rightarrow>
          if c = CHR ''e'' \<or> c = CHR ''E'' then
            (let (neg, r1) = take_sign r;
                 ds = takeWhile is_digit r1
             in if ds = [] then (0, s)
                else (if neg then - int (nat_of_digits ds) else int (nat_of_digits ds),
                      dropWhile is_digit r1))
          else (0, s))"

text \<open>
  A cell is a float when, blanks at both ends aside, it is an optional sign, digits with
  an optional point among them (one digit at least), and an optional exponent.
\<close>

definition parse_float :: "string \<Rightarrow> rat option" where
  "parse_float s =
     (let (neg, t1) = take_sign (strip s);
          ip = takeWhile is_digit t1;
          t2 = dropWhile is_digit t1;
          (fp, t3) = (case t2 of
                        [] \<Rightarrow> ([], [])
                      | c # r \<Rightarrow> if c = CHR ''.'' then (takeWhile is_digit r, dropWhile is_digit r)
                                 else ([], t2));
          (ex, t4) = take_exponent t3;
          m = of_nat (nat_of_digits (ip @ fp)) * pow10 (ex - int (length fp))
      in if (ip = [] \<and> fp = []) \<or> t4 \<noteq> [] then None
         else Some (float64 (if neg then - m else m)))"

definition ascii_lower :: "char \<Rightarrow> char" where
  "ascii_lower c =
     (case map_of (zip ''ABCDEFGHIJKLMNOPQRSTUVWXYZ'' ''abcdefghijklmnopqrstuvwxyz'') c of
        None \<Rightarrow> c
      | Some l \<Rightarrow> l)"

text \<open>The spellings of infinity, in any mix of cases; \<open>Some True\<close> is the negative one.\<close>

definition parse_inf :: "string \<Rightarrow> bool option" where
  "parse_inf s =
     (let t = map ascii_lower s
      in if t \<in> set [''inf'', ''+inf'', ''infinity'', ''+infinity''] then Some False
         else if t \<in> set [''-inf'', ''-infinity''] then Some True
         else None)"

definition float_cell :: "string \<Rightarrow> pyval option" where
  "float_cell s =
     (case parse_float s of
        Some x \<Rightarrow> Some (PFloat x)
      | None \<Rightarrow> map_option PInf (parse_inf s))"

definition true_values :: "string list" where
  "true_values = [''True'', ''TRUE'', ''true'']"

definition false_values :: "string list" where
  "false_values = [''False'', ''FALSE'', ''false'']"

definition is_bool_cell :: "string \<Rightarrow> bool" where
  "is_bool_cell s \<longleftrightarrow> s \<in> set true_values \<or> s \<in> set false_values"

datatype dtype = Int64 | Float64 | Bool | Object

text \<open>The type of a column, from the cells that are not missing-value markers.\<close>

definition infer_dtype :: "string list \<Rightarrow> dtype" where
  "infer_dtype cells =
     (let present = filter (\<lambda>s. \<not> is_na s) cells
      in if list_all (\<lambda>s. parse_int64 s \<noteq> None) present then
           (if list_ex is_na cells then Float64 else Int64)
         else if list_all (\<lambda>s. float_cell s \<noteq> None) present then Float64
         else if list_all is_bool_cell present then Bool
         else Object)"

definition read_cell :: "dtype \<Rightarrow> string \<Rightarrow> pyval" where
  "read_cell dt s =
     (if is_na s then PNaN
      else case dt of
             Int64 \<Rightarrow> (case parse_int64 s of Some i \<Rightarrow> PInt i | None \<Rightarrow> PStr s)
           | Float64 \<Rightarrow> (case float_cell s of Some v \<Rightarrow> v | None \<Rightarrow> PStr s)
           | Bool \<Rightarrow> PBool (s \<in> set true_values)
           | Object \<Rightarrow> PStr s)"

definition convert_column :: "string list \<Rightarrow> pyval list" where
  "convert_column cells = map (read_cell (infer_dtype cells)) cells"

text \<open>
  The table of a file: the first line that has cells is the header, the others are the
  rows. The first row sets the width when it is longer than the header, and its surplus
  leading cells become index columns; a later row that is longer still is an error, a
  shorter one is filled up with empty cells. A line with no cell at all is skipped.
\<close>

definition frame_of_lines :: "csv_line list \<Rightarrow> pyerror + dataframe" where
  "frame_of_lines lines =
     (case filter (\<lambda>l. l \<noteq> []) lines of
        [] \<Rightarrow> Inl EmptyDataError
      | header # data \<Rightarrow>
          (let width = (case data of [] \<Rightarrow> length header | r # _ \<Rightarrow> max (length header) (length r))
           in if list_ex (\<lambda>r. width < length r) data then Inl ParserError
              else
                (let padded = map (\<lambda>r. r @ replicate (width - length r) '''') data;
                     cols = map (\<lambda>j. convert_column (map (\<lambda>r. r ! j) padded)) [0..<width];
                     typed = map (\<lambda>i. map (\<lambda>c. c ! i) cols) [0..<length data];
                     lead = width - length header
                 in Inr \<lparr>columns = header,
                         index_cols = map (take lead) typed,
                         rows = map (drop lead) typed\<rparr>)))"

definition read_csv :: "filesystem \<Rightarrow> string \<Rightarrow> pyerror + dataframe" where
  "read_csv fs path =
     (case fs path of
        None \<Rightarrow> Inl FileNotFoundError
      | Some lines \<Rightarrow> frame_of_lines lines)"

text \<open>\<^verbatim>\<open>load_from_csv(csv_file)\<close>, lines 27 to 32.\<close>

definition load_from_csv :: "string \<Rightarrow> filesystem \<Rightarrow> pyerror + dataframe" where
  "load_from_csv csv_file fs =
     (if isfile fs csv_file then read_csv fs csv_file else Inr DataFrame_empty)"

text \<open>\<^verbatim>\<open>df[name]\<close>: the values of a column, top down.\<close>

definition getitem :: "dataframe \<Rightarrow> string \<Rightarrow> pyerror + pyval list" where
  "getitem df name =
     (case find (\<lambda>j. columns df ! j = name) [0..<length (columns df)] of
        None \<Rightarrow> Inl (KeyError name)
      | Some j \<Rightarrow> Inr (map (\<lambda>r. r ! j) (rows df)))"

text \<open>
  \<^verbatim>\<open>Series.mean()\<close>: text cannot be averaged; \<^verbatim>\<open>NaN\<close> is skipped, a boolean counts as 0
  or 1, and the sum is divided by the count in binary64. The rounding inside the sum of
  a float column is not modelled.
\<close>

definition number_of :: "pyval \<Rightarrow> rat" where
  "number_of v = (case v of PInt i \<Rightarrow> of_int i | PFloat x \<Rightarrow> x | PBool b \<Rightarrow> (if b then 1 else 0) | _ \<Rightarrow> 0)"

definition mean :: "pyval list \<Rightarrow> pyerror + pyval" where
  "mean values =
     (if list_ex (\<lambda>v. case v of PStr _ \<Rightarrow> True | _ \<Rightarrow> False) values then Inl TypeError
      else
        (let xs = filter (\<lambda>v. v \<noteq> PNaN) values
         in if xs = [] then Inr PNaN
            else if PInf False \<in> set xs \<and> PInf True \<in> set xs then Inr PNaN
            else if PInf False \<in> set xs then Inr (PInf False)
            else if PInf True \<in> set xs then Inr (PInf True)
            else Inr (PFloat (float_div (float64 (sum_list (map number_of xs)))
                                        (of_nat (length xs))))))"

text \<open>
  The format \<^verbatim>\<open>{x:.2f}\<close>: the decimal with two places nearest to the float, a tie going
  to the even last digit.
\<close>

definition format_2f :: "pyval \<Rightarrow> string" where
  "format_2f v =
     (case v of
        PFloat x \<Rightarrow>
          (let n = nat \<bar>round_half_even (x * 100)\<bar>
           in (if x < 0 then ''-'' else '''') @ str_nat (n div 100) @ ''.''
                @ zfill 2 (str_nat (n mod 100)))
      | PInf neg \<Rightarrow> (if neg then ''-inf'' else ''inf'')
      | _ \<Rightarrow> ''nan'')"


section \<open>The clock\<close>

text \<open>
  \<^verbatim>\<open>time.strftime("%Y-%m-%d %H:%M:%S")\<close> formats the local time of the call: the fields
  of a \<^verbatim>\<open>struct_time\<close>, zero-padded (a year has four digits from the year 1000 on).
\<close>

record struct_time =
  tm_year :: nat
  tm_mon :: nat
  tm_mday :: nat
  tm_hour :: nat
  tm_min :: nat
  tm_sec :: nat

definition strftime :: "struct_time \<Rightarrow> string" where
  "strftime t =
     zfill 4 (str_nat (tm_year t)) @ ''-'' @ zfill 2 (str_nat (tm_mon t)) @ ''-''
       @ zfill 2 (str_nat (tm_mday t)) @ '' '' @ zfill 2 (str_nat (tm_hour t)) @ '':''
       @ zfill 2 (str_nat (tm_min t)) @ '':'' @ zfill 2 (str_nat (tm_sec t))"


section \<open>One run of \<^verbatim>\<open>main\<close>\<close>

text \<open>
  Streamlit runs \<^verbatim>\<open>main\<close> from top to bottom on every interaction. What one run reads
  from outside is collected in \<open>inputs\<close>: the value of every widget (a button is \<open>True\<close>
  in the run its press causes), and what the clock returns at each place that reads it.
  What a run leaves behind is the \<open>world\<close>: the files and \<^verbatim>\<open>st.session_state\<close>, which
  holds nothing but the two floats of the task timer.
\<close>

record inputs =
  consent_given :: bool               \<comment> \<open>the checkbox, line 67\<close>
  btn_submit_consent :: bool          \<comment> \<open>"Submit Consent", line 70\<close>
  now_consent :: struct_time          \<comment> \<open>the clock at line 75\<close>
  name :: string
  age :: int                          \<comment> \<open>\<^verbatim>\<open>number_input\<close> with integer bounds 0 and 120\<close>
  occupation :: string
  familiarity :: string
  submitted :: bool                   \<comment> \<open>"Submit Demographics", line 96\<close>
  now_demographics :: struct_time     \<comment> \<open>the clock at line 99\<close>
  selected_task :: string
  btn_start :: bool                   \<comment> \<open>"Start Task Timer", line 115\<close>
  time_start :: rat                   \<comment> \<open>\<^verbatim>\<open>time.time()\<close> at line 116\<close>
  btn_stop :: bool                    \<comment> \<open>"Stop Task Timer", line 117\<close>
  time_stop :: rat                    \<comment> \<open>\<^verbatim>\<open>time.time()\<close> at line 118\<close>
  success :: string
  "notes" :: string                   \<comment> \<open>the observer notes, line 124\<close>
  btn_save :: bool                    \<comment> \<open>"Save Task Results", line 126\<close>
  now_task :: struct_time             \<comment> \<open>the clock at line 129\<close>
  satisfaction :: int                 \<comment> \<open>a slider from 1 to 5\<close>
  difficulty :: int                   \<comment> \<open>a slider from 1 to 5\<close>
  open_feedback :: string
  submitted_exit :: bool              \<comment> \<open>"Submit Exit Questionnaire", line 170\<close>
  now_exit :: struct_time             \<comment> \<open>the clock at line 173\<close>

record world =
  files :: filesystem
  session_state :: "string \<rightharpoonup> rat"

text \<open>What a run shows, the fixed headers and descriptions left out.\<close>

datatype element =
    Warning string
  | Success string
  | Info string
  | Show_dataframe dataframe
  | Write string

definition CONSENT_CSV :: string where "CONSENT_CSV = ''data/consent_data.csv''"
definition DEMOGRAPHIC_CSV :: string where "DEMOGRAPHIC_CSV = ''data/demographic_data.csv''"
definition TASK_CSV :: string where "TASK_CSV = ''data/task_data.csv''"
definition EXIT_CSV :: string where "EXIT_CSV = ''data/exit_data.csv''"

text \<open>The record each stage builds on submit (lines 74, 98, 128 and 172).\<close>

definition consent_record :: "inputs \<Rightarrow> pydict" where
  "consent_record inp =
     [(''timestamp'', PStr (strftime (now_consent inp))),
      (''consent_given'', PBool (consent_given inp))]"

definition demographic_record :: "inputs \<Rightarrow> pydict" where
  "demographic_record inp =
     [(''timestamp'', PStr (strftime (now_demographics inp))),
      (''name'', PStr (name inp)),
      (''age'', PInt (age inp)),
      (''occupation'', PStr (occupation inp)),
      (''familiarity'', PStr (familiarity inp))]"

text \<open>
  Line 132, \<^verbatim>\<open>duration_val if duration_val else ""\<close>: \<open>duration_val\<close> is \<^verbatim>\<open>None\<close> or a
  float, and Python takes \<^verbatim>\<open>None\<close> and \<^verbatim>\<open>0.0\<close> for false.
\<close>

definition duration_field :: "rat option \<Rightarrow> pyval" where
  "duration_field duration_val =
     (case duration_val of
        None \<Rightarrow> PStr ''''
      | Some d \<Rightarrow> if d \<noteq> 0 then PFloat d else PStr '''')"

definition task_record :: "inputs \<Rightarrow> rat option \<Rightarrow> pydict" where
  "task_record inp duration_val =
     [(''timestamp'', PStr (strftime (now_task inp))),
      (''task_name'', PStr (selected_task inp)),
      (''success'', PStr (success inp)),
      (''duration_seconds'', duration_field duration_val),
      (''notes'', PStr (notes inp))]"

definition exit_record :: "inputs \<Rightarrow> pydict" where
  "exit_record inp =
     [(''timestamp'', PStr (strftime (now_exit inp))),
      (''satisfaction'', PInt (satisfaction inp)),
      (''difficulty'', PInt (difficulty inp)),
      (''open_feedback'', PStr (open_feedback inp))]"

text \<open>The consent tab, lines 67 to 79.\<close>

definition consent_tab :: "(rat \<Rightarrow> string) \<Rightarrow> inputs \<Rightarrow> world \<Rightarrow> world \<times> element list" where
  "consent_tab float_repr inp w =
     (if btn_submit_consent inp then
        if \<not> consent_given inp then
          (w, [Warning ''You must agree to the consent terms before proceeding.''])
        else
          (w\<lparr>files := save_to_csv float_repr (consent_record inp) CONSENT_CSV (files w)\<rparr>,
           [Success ''Consent submitted. Thank you!''])
      else (w, []))"

text \<open>The demographics tab, lines 96 to 106.\<close>

definition demographics_tab :: "(rat \<Rightarrow> string) \<Rightarrow> inputs \<Rightarrow> world \<Rightarrow> world \<times> element list" where
  "demographics_tab float_repr inp w =
     (if submitted inp then
        (w\<lparr>files := save_to_csv float_repr (demographic_record inp) DEMOGRAPHIC_CSV (files w)\<rparr>,
         [Success ''Demographics submitted. Thank you!''])
      else (w, []))"

text \<open>The two timer buttons, lines 115 to 119, on the session state.\<close>

definition timer_buttons :: "inputs \<Rightarrow> (string \<rightharpoonup> rat) \<Rightarrow> (string \<rightharpoonup> rat)" where
  "timer_buttons inp ss =
     (let ss1 = (if btn_start inp then ss(''start_time'' \<mapsto> time_start inp) else ss)
      in if btn_stop inp then
           (case ss1 ''start_time'' of
              None \<Rightarrow> ss1
            | Some start_time \<Rightarrow>
                (let duration = float_sub (time_stop inp) start_time
                 in ss1(''task_duration'' \<mapsto> duration)))
         else ss1)"

text \<open>The task tab, lines 115 to 140.\<close>

definition tasks_tab :: "(rat \<Rightarrow> string) \<Rightarrow> inputs \<Rightarrow> world \<Rightarrow> world \<times> element list" where
  "tasks_tab float_repr inp w =
     (let ss = timer_buttons inp (session_state w)
      in if btn_save inp then
           (let duration_val = ss ''task_duration'';
                data_dict = task_record inp duration_val
            in (\<lparr>files = save_to_csv float_repr data_dict TASK_CSV (files w),
                 session_state = ss(''start_time'' := None, ''task_duration'' := None)\<rparr>,
                [Success ''Task data saved.'']))
         else (w\<lparr>session_state := ss\<rparr>, []))"

text \<open>The exit questionnaire tab, lines 170 to 179.\<close>

definition exit_tab :: "(rat \<Rightarrow> string) \<Rightarrow> inputs \<Rightarrow> world \<Rightarrow> world \<times> element list" where
  "exit_tab float_repr inp w =
     (if submitted_exit inp then
        (w\<lparr>files := save_to_csv float_repr (exit_record inp) EXIT_CSV (files w)\<rparr>,
         [Success ''Exit questionnaire data saved.''])
      else (w, []))"

text \<open>
  One store of the report (lines 185 to 189 and their three repetitions): the frame, or
  the note that there is none yet.
\<close>

definition show_store :: "dataframe \<Rightarrow> string \<Rightarrow> element" where
  "show_store df missing = (if \<not> empty df then Show_dataframe df else Info missing)"

text \<open>The dash of the two labels is an en dash, three bytes in UTF-8.\<close>

definition avg_satisfaction_label :: string where
  "avg_satisfaction_label =
     ''**Average Satisfaction (1'' @ [CHR 0xE2, CHR 0x80, CHR 0x93] @ ''5)**: ''"

definition avg_difficulty_label :: string where
  "avg_difficulty_label =
     ''**Average Difficulty (1'' @ [CHR 0xE2, CHR 0x80, CHR 0x93] @ ''5)**: ''"

text \<open>The two averages of the exit store, lines 213 to 217.\<close>

definition exit_averages :: "dataframe \<Rightarrow> element list \<times> pyerror option" where
  "exit_averages exit_df =
     (if \<not> empty exit_df then
        (case getitem exit_df ''satisfaction'' of
           Inl e \<Rightarrow> ([], Some e)
         | Inr satisfaction_column \<Rightarrow>
        (case mean satisfaction_column of
           Inl e \<Rightarrow> ([], Some e)
         | Inr avg_satisfaction \<Rightarrow>
        (case getitem exit_df ''difficulty'' of
           Inl e \<Rightarrow> ([], Some e)
         | Inr difficulty_column \<Rightarrow>
        (case mean difficulty_column of
           Inl e \<Rightarrow> ([], Some e)
         | Inr avg_difficulty \<Rightarrow>
             ([Write (avg_satisfaction_label @ format_2f avg_satisfaction),
               Write (avg_difficulty_label @ format_2f avg_difficulty)], None)))))
      else ([], None))"

text \<open>
  The report tab, lines 184 to 217: what it shows, and the exception that ends it if one
  is raised. It only reads the files.
\<close>

definition report_tab :: "filesystem \<Rightarrow> element list \<times> pyerror option" where
  "report_tab fs =
     (case load_from_csv CONSENT_CSV fs of
        Inl e \<Rightarrow> ([], Some e)
      | Inr consent_df \<Rightarrow>
     (case load_from_csv DEMOGRAPHIC_CSV fs of
        Inl e \<Rightarrow> ([show_store consent_df ''No consent data available yet.''], Some e)
      | Inr demographic_df \<Rightarrow>
     (case load_from_csv TASK_CSV fs of
        Inl e \<Rightarrow>
          ([show_store consent_df ''No consent data available yet.'',
            show_store demographic_df ''No demographic data available yet.''], Some e)
      | Inr task_df \<Rightarrow>
     (case load_from_csv EXIT_CSV fs of
        Inl e \<Rightarrow>
          ([show_store consent_df ''No consent data available yet.'',
            show_store demographic_df ''No demographic data available yet.'',
            show_store task_df ''No task data available yet.''], Some e)
      | Inr exit_df \<Rightarrow>
          (let (shown, err) = exit_averages exit_df
           in ([show_store consent_df ''No consent data available yet.'',
                show_store demographic_df ''No demographic data available yet.'',
                show_store task_df ''No task data available yet.'',
                show_store exit_df ''No exit questionnaire data available yet.''] @ shown,
               err))))))"

text \<open>
  \<^verbatim>\<open>main()\<close>: the five tabs that do something, in the order of the script. The result
  is the world the run leaves, what it showed, and the exception of the report if any.
\<close>

definition main :: "(rat \<Rightarrow> string) \<Rightarrow> inputs \<Rightarrow> world \<Rightarrow> world \<times> element list \<times> pyerror option" where
  "main float_repr inp w =
     (let (w1, shown1) = consent_tab float_repr inp w;
          (w2, shown2) = demographics_tab float_repr inp w1;
          (w3, shown3) = tasks_tab float_repr inp w2;
          (w4, shown4) = exit_tab float_repr inp w3;
          (shown5, err) = report_tab (files w4)
      in (w4, shown1 @ shown2 @ shown3 @ shown4 @ shown5, err))"

text \<open>
  A session is a sequence of runs, each from the world the one before left; an exception
  in the report ends that run only.
\<close>

fun session :: "(rat \<Rightarrow> string) \<Rightarrow> inputs list \<Rightarrow> world \<Rightarrow> world" where
  "session float_repr [] w = w"
| "session float_repr (inp # inps) w = session float_repr inps (fst (main float_repr inp w))"

text \<open>The start: the data folder has just been made and the session holds nothing.\<close>

definition initial_world :: world where
  "initial_world = \<lparr>files = Map.empty, session_state = Map.empty\<rparr>"


section \<open>Notions for stating the properties\<close>

text \<open>Appending a sequence of records to one store, first to last.\<close>

fun appends :: "(rat \<Rightarrow> string) \<Rightarrow> pydict list \<Rightarrow> string \<Rightarrow> filesystem \<Rightarrow> filesystem" where
  "appends float_repr [] csv_file fs = fs"
| "appends float_repr (d # ds) csv_file fs =
     appends float_repr ds csv_file (save_to_csv float_repr d csv_file fs)"

text \<open>The data lines of a store: every line after the header; none when there is no file.\<close>

definition records :: "filesystem \<Rightarrow> string \<Rightarrow> csv_line list" where
  "records fs csv_file = (case fs csv_file of None \<Rightarrow> [] | Some lines \<Rightarrow> tl lines)"

text \<open>What the two sliders of the exit form guarantee about their values.\<close>

definition slider_ranges :: "inputs \<Rightarrow> bool" where
  "slider_ranges inp \<longleftrightarrow>
     1 \<le> satisfaction inp \<and> satisfaction inp \<le> 5 \<and> 1 \<le> difficulty inp \<and> difficulty inp \<le> 5"

text \<open>A cell that no numeric or boolean type accepts and that is no missing-value marker.\<close>

definition text_cell :: "string \<Rightarrow> bool" where
  "text_cell s \<longleftrightarrow>
     \<not> is_na s \<and> parse_int64 s = None \<and> float_cell s = None \<and> \<not> is_bool_cell s"

text \<open>
  The exit store: its header, and the row loaded for the submission \<open>inp\<close> from a store
  that holds the submissions \<open>inps\<close>: the timestamp as text, the two ratings as integers,
  and the feedback as its column is read.
\<close>

definition exit_keys :: "string list" where
  "exit_keys = [''timestamp'', ''satisfaction'', ''difficulty'', ''open_feedback'']"

definition exit_row :: "inputs list \<Rightarrow> inputs \<Rightarrow> pyval list" where
  "exit_row inps inp =
     [PStr (strftime (now_exit inp)), PInt (satisfaction inp), PInt (difficulty inp),
      read_cell (infer_dtype (map open_feedback inps)) (open_feedback inp)]"

text \<open>Every data line of the consent store is a timestamp and the flag \<^verbatim>\<open>True\<close>.\<close>

definition consent_store_ok :: "filesystem \<Rightarrow> bool" where
  "consent_store_ok fs \<longleftrightarrow>
     list_all (\<lambda>line. length line = 2 \<and> line ! 1 = ''True'') (records fs CONSENT_CSV)"

text \<open>
  Concrete inputs for running the model: a clock reading, a run in which nothing is
  pressed and every widget has its initial value, and a stand-in for \<^verbatim>\<open>repr\<close> that is
  right on the two floats used (\<^verbatim>\<open>0.0\<close> and \<^verbatim>\<open>1.5\<close>).
\<close>

definition noon :: struct_time where
  "noon = \<lparr>tm_year = 2024, tm_mon = 3, tm_mday = 7, tm_hour = 12, tm_min = 0, tm_sec = 9\<rparr>"

definition idle :: inputs where
  "idle =
     \<lparr>consent_given = False, btn_submit_consent = False, now_consent = noon,
      name = '''', age = 0, occupation = '''', familiarity = ''I've never used these tools'',
      submitted = False, now_demographics = noon,
      selected_task = ''Task 1: Example Task'', btn_start = False, time_start = 0,
      btn_stop = False, time_stop = 0, success = ''Yes'', notes = '''', btn_save = False,
      now_task = noon,
      satisfaction = 3, difficulty = 3, open_feedback = '''', submitted_exit = False,
      now_exit = noon\<rparr>"

definition repr_0_or_1_5 :: "rat \<Rightarrow> string" where
  "repr_0_or_1_5 x = (if x = 0 then ''0.0'' else ''1.5'')"

text \<open>The floats that the report averages: the sum of a column of integers over its length.\<close>

definition avg_of :: "int list \<Rightarrow> rat" where
  "avg_of xs = float_div (float64 (of_int (sum_list xs))) (of_nat (length xs))"

text \<open>
  A store is rectangular when its file, if there is one, has a header and every line has
  as many cells as the stage's record has fields.
\<close>

definition rectangular :: "nat \<Rightarrow> csv_line list option \<Rightarrow> bool" where
  "rectangular k content \<longleftrightarrow>
     (case content of None \<Rightarrow> True | Some lines \<Rightarrow> lines \<noteq> [] \<and> list_all (\<lambda>l. length l = k) lines)"

definition stores_rectangular :: "filesystem \<Rightarrow> bool" where
  "stores_rectangular fs \<longleftrightarrow>
     rectangular 2 (fs CONSENT_CSV) \<and> rectangular 5 (fs DEMOGRAPHIC_CSV)
       \<and> rectangular 5 (fs TASK_CSV) \<and> rectangular 4 (fs EXIT_CSV)"

text \<open>
  A run that one button press causes has that button \<open>True\<close> and the others \<open>False\<close>:
  the three buttons of the task tab.
\<close>

definition press_start :: "inputs \<Rightarrow> bool" where
  "press_start inp \<longleftrightarrow> btn_start inp \<and> \<not> btn_stop inp \<and> \<not> btn_save inp"

definition press_stop :: "inputs \<Rightarrow> bool" where
  "press_stop inp \<longleftrightarrow> \<not> btn_start inp \<and> btn_stop inp \<and> \<not> btn_save inp"

definition press_save :: "inputs \<Rightarrow> bool" where
  "press_save inp \<longleftrightarrow> \<not> btn_start inp \<and> \<not> btn_stop inp \<and> btn_save inp"

text \<open>Runs of the example session: one press each, every other widget as in \<open>idle\<close>.\<close>

definition start_at :: "rat \<Rightarrow> inputs" where
  "start_at t = idle\<lparr>btn_start := True, time_start := t\<rparr>"

definition stop_at :: "rat \<Rightarrow> inputs" where
  "stop_at t = idle\<lparr>btn_stop := True, time_stop := t\<rparr>"

definition save_now :: inputs where
  "save_now = idle\<lparr>btn_save := True\<rparr>"

definition tick_and_submit :: inputs where
  "tick_and_submit = idle\<lparr>consent_given := True, btn_submit_consent := True\<rparr>"

definition all_submit :: inputs where
  "all_submit = idle\<lparr>consent_given := True, btn_submit_consent := True, submitted := True,
     btn_save := True, submitted_exit := True\<rparr>"


section \<open>The store: header once, one line per append\<close>

lemma save_to_csv_new:
  "fs csv_file = None \<Longrightarrow>
   save_to_csv float_repr d csv_file fs = fs(csv_file \<mapsto> [map fst d, data_row float_repr d])"
  by (simp add: save_to_csv_def to_csv_def isfile_def DataFrame_def data_row_def)

lemma save_to_csv_old:
  "fs csv_file = Some old \<Longrightarrow>
   save_to_csv float_repr d csv_file fs = fs(csv_file \<mapsto> old @ [data_row float_repr d])"
  by (simp add: save_to_csv_def to_csv_def isfile_def DataFrame_def data_row_def)

lemma save_to_csv_other:
  "p \<noteq> csv_file \<Longrightarrow> save_to_csv float_repr d csv_file fs p = fs p"
  by (simp add: save_to_csv_def to_csv_def Let_def)

lemma appends_lines:
  "fs csv_file = Some old \<Longrightarrow>
   appends R ds csv_file fs csv_file = Some (old @ map (data_row R) ds)"
  by (induction ds arbitrary: fs old) (simp_all add: save_to_csv_old)

lemma appends_other:
  "p \<noteq> csv_file \<Longrightarrow> appends R ds csv_file fs p = fs p"
  by (induction ds arbitrary: fs) (simp_all add: save_to_csv_other)


text \<open>
  \<^bold>\<open>C7.\<close> The first append to a store that does not exist creates it with two lines: the
  header, which is the keys of that first record, and the record's own line. From then
  on the file is that header, that line and one line per later record in order, and a
  further append puts one line at the end and leaves everything before it as it was.
\<close>

theorem header_written_once:
  "fs csv_file = None \<longrightarrow>
     save_to_csv R d0 csv_file fs csv_file = Some [map fst d0, data_row R d0]
     \<and> appends R (d0 # ds) csv_file fs csv_file
         = Some (map fst d0 # data_row R d0 # map (data_row R) ds)
     \<and> (\<forall>d. save_to_csv R d csv_file (appends R (d0 # ds) csv_file fs) csv_file
         = Some ((map fst d0 # data_row R d0 # map (data_row R) ds) @ [data_row R d]))"
proof
  assume new: "fs csv_file = None"
  have first: "save_to_csv R d0 csv_file fs csv_file = Some [map fst d0, data_row R d0]"
    using new by (simp add: save_to_csv_new)
  have all: "appends R (d0 # ds) csv_file fs csv_file
      = Some (map fst d0 # data_row R d0 # map (data_row R) ds)"
    using appends_lines [where fs = "save_to_csv R d0 csv_file fs" and csv_file = csv_file
        and R = R and ds = ds, OF first]
    by simp
  have later: "save_to_csv R d csv_file (appends R (d0 # ds) csv_file fs) csv_file
      = Some ((map fst d0 # data_row R d0 # map (data_row R) ds) @ [data_row R d])" for d
    using all by (simp add: save_to_csv_old)
  show "save_to_csv R d0 csv_file fs csv_file = Some [map fst d0, data_row R d0]
     \<and> appends R (d0 # ds) csv_file fs csv_file
         = Some (map fst d0 # data_row R d0 # map (data_row R) ds)
     \<and> (\<forall>d. save_to_csv R d csv_file (appends R (d0 # ds) csv_file fs) csv_file
         = Some ((map fst d0 # data_row R d0 # map (data_row R) ds) @ [data_row R d]))"
    using first all later by blast
qed

theorem header_written_once_witness:
  "Map.empty EXIT_CSV = None
   \<and> save_to_csv repr_0_or_1_5 [(''id'', PInt 7), (''secs'', PFloat 0)] EXIT_CSV Map.empty EXIT_CSV
       = Some [[''id'', ''secs''], [''7'', ''0.0'']]
   \<and> appends repr_0_or_1_5
        [[(''id'', PInt 7), (''secs'', PFloat 0)], [(''id'', PInt 12), (''secs'', PStr '''')]]
        EXIT_CSV Map.empty EXIT_CSV
       = Some [[''id'', ''secs''], [''7'', ''0.0''], [''12'', '''']]"
  using header_written_once
    [of Map.empty EXIT_CSV repr_0_or_1_5 "[(''id'', PInt 7), (''secs'', PFloat 0)]"
        "[[(''id'', PInt 12), (''secs'', PStr '''')]]"]
  by (simp add: data_row_def repr_0_or_1_5_def str_int_def str_nat.simps digit_char_def)


text \<open>
  \<^bold>\<open>C8.\<close> A record whose keys are not those of the header is appended all the same: the
  header stays, and the new line is the text of the record's values in the record's own
  key order. There is no error result that \<open>save_to_csv\<close> could give. In the instance
  below the value of key \<^verbatim>\<open>b\<close> is then loaded under column \<^verbatim>\<open>a\<close>.
\<close>

theorem mismatched_keys_appended:
  "fs csv_file = Some (header # lines) \<and> set (map fst d) \<noteq> set header \<longrightarrow>
     save_to_csv R d csv_file fs csv_file
       = Some (header # lines @ [map (str_cell R \<circ> snd) d])"
  by (simp add: save_to_csv_old data_row_def)

theorem mismatched_keys_appended_witness:
  "[TASK_CSV \<mapsto> [[''a'', ''b''], [''1'', ''2'']]] TASK_CSV = Some ([''a'', ''b''] # [[''1'', ''2'']])
   \<and> set (map fst [(''b'', PInt 7)]) \<noteq> set [''a'', ''b'']
   \<and> save_to_csv repr_0_or_1_5 [(''b'', PInt 7)] TASK_CSV [TASK_CSV \<mapsto> [[''a'', ''b''], [''1'', ''2'']]] TASK_CSV
       = Some [[''a'', ''b''], [''1'', ''2''], [''7'']]
   \<and> load_from_csv TASK_CSV
        (save_to_csv repr_0_or_1_5 [(''b'', PInt 7)] TASK_CSV [TASK_CSV \<mapsto> [[''a'', ''b''], [''1'', ''2'']]])
       = Inr \<lparr>columns = [''a'', ''b''], index_cols = [[], []],
              rows = [[PInt 1, PFloat 2], [PInt 7, PNaN]]\<rparr>"
proof -
  have written:
    "[TASK_CSV \<mapsto> [[''a'', ''b''], [''1'', ''2'']]] TASK_CSV = Some ([''a'', ''b''] # [[''1'', ''2'']])
     \<and> set (map fst [(''b'', PInt 7)]) \<noteq> set [''a'', ''b'']
     \<and> save_to_csv repr_0_or_1_5 [(''b'', PInt 7)] TASK_CSV [TASK_CSV \<mapsto> [[''a'', ''b''], [''1'', ''2'']]] TASK_CSV
       = Some [[''a'', ''b''], [''1'', ''2''], [''7'']]"
    using mismatched_keys_appended
      [of "[TASK_CSV \<mapsto> [[''a'', ''b''], [''1'', ''2'']]]" TASK_CSV "[''a'', ''b'']" "[[''1'', ''2'']]"
          "[(''b'', PInt 7)]" repr_0_or_1_5]
    by (simp add: str_int_def str_nat.simps digit_char_def)
  have loaded:
    "load_from_csv TASK_CSV
        (save_to_csv repr_0_or_1_5 [(''b'', PInt 7)] TASK_CSV [TASK_CSV \<mapsto> [[''a'', ''b''], [''1'', ''2'']]])
       = Inr \<lparr>columns = [''a'', ''b''], index_cols = [[], []],
              rows = [[PInt 1, PFloat 2], [PInt 7, PNaN]]\<rparr>"
    by code_simp
  show ?thesis
    using written loaded by blast
qed


section \<open>What one run does to the files and the session\<close>

lemma save_to_csv_same:
  "save_to_csv R d csv_file fs csv_file =
     Some (case fs csv_file of None \<Rightarrow> [map fst d, data_row R d] | Some old \<Rightarrow> old @ [data_row R d])"
  by (cases "fs csv_file") (simp_all add: save_to_csv_new save_to_csv_old)

lemma records_save_to_csv:
  "fs csv_file \<noteq> Some [] \<Longrightarrow>
   records (save_to_csv R d csv_file fs) csv_file = records fs csv_file @ [data_row R d]"
  by (cases "fs csv_file") (auto simp: records_def save_to_csv_same)

lemma records_other:
  "p \<noteq> csv_file \<Longrightarrow> records (save_to_csv R d csv_file fs) p = records fs p"
  by (simp add: records_def save_to_csv_other)

lemma save_to_csv_not_empty: "save_to_csv R d csv_file fs csv_file \<noteq> Some []"
  by (simp add: save_to_csv_same split: option.splits)

lemma paths_distinct:
  "CONSENT_CSV \<noteq> DEMOGRAPHIC_CSV" "CONSENT_CSV \<noteq> TASK_CSV" "CONSENT_CSV \<noteq> EXIT_CSV"
  "DEMOGRAPHIC_CSV \<noteq> TASK_CSV" "DEMOGRAPHIC_CSV \<noteq> EXIT_CSV" "TASK_CSV \<noteq> EXIT_CSV"
  "DEMOGRAPHIC_CSV \<noteq> CONSENT_CSV" "TASK_CSV \<noteq> CONSENT_CSV" "EXIT_CSV \<noteq> CONSENT_CSV"
  "TASK_CSV \<noteq> DEMOGRAPHIC_CSV" "EXIT_CSV \<noteq> DEMOGRAPHIC_CSV" "EXIT_CSV \<noteq> TASK_CSV"
  by (simp_all add: CONSENT_CSV_def DEMOGRAPHIC_CSV_def TASK_CSV_def EXIT_CSV_def)

lemma fst_main:
  "fst (main R inp w) =
     fst (exit_tab R inp (fst (tasks_tab R inp (fst (demographics_tab R inp (fst (consent_tab R inp w)))))))"
  by (simp add: main_def Let_def case_prod_beta)

lemma consent_tab_files:
  "files (fst (consent_tab R inp w)) =
     (if btn_submit_consent inp \<and> consent_given inp
      then save_to_csv R (consent_record inp) CONSENT_CSV (files w) else files w)"
  by (simp add: consent_tab_def)

lemma consent_tab_session_state: "session_state (fst (consent_tab R inp w)) = session_state w"
  by (simp add: consent_tab_def)

lemma demographics_tab_files:
  "files (fst (demographics_tab R inp w)) =
     (if submitted inp then save_to_csv R (demographic_record inp) DEMOGRAPHIC_CSV (files w)
      else files w)"
  by (simp add: demographics_tab_def)

lemma demographics_tab_session_state:
  "session_state (fst (demographics_tab R inp w)) = session_state w"
  by (simp add: demographics_tab_def)

lemma tasks_tab_files:
  "files (fst (tasks_tab R inp w)) =
     (if btn_save inp
      then save_to_csv R (task_record inp (timer_buttons inp (session_state w) ''task_duration''))
             TASK_CSV (files w)
      else files w)"
  by (simp add: tasks_tab_def Let_def)

lemma tasks_tab_session_state:
  "session_state (fst (tasks_tab R inp w)) =
     (if btn_save inp
      then (timer_buttons inp (session_state w))(''start_time'' := None, ''task_duration'' := None)
      else timer_buttons inp (session_state w))"
  by (simp add: tasks_tab_def Let_def)

lemma exit_tab_files:
  "files (fst (exit_tab R inp w)) =
     (if submitted_exit inp then save_to_csv R (exit_record inp) EXIT_CSV (files w) else files w)"
  by (simp add: exit_tab_def)

lemma exit_tab_session_state: "session_state (fst (exit_tab R inp w)) = session_state w"
  by (simp add: exit_tab_def)

lemmas tab_files = consent_tab_files demographics_tab_files tasks_tab_files exit_tab_files
lemmas tab_session_state =
  consent_tab_session_state demographics_tab_session_state tasks_tab_session_state
  exit_tab_session_state

lemma main_session_state:
  "session_state (fst (main R inp w)) =
     (if btn_save inp
      then (timer_buttons inp (session_state w))(''start_time'' := None, ''task_duration'' := None)
      else timer_buttons inp (session_state w))"
  by (simp only: fst_main tab_session_state)

lemma main_consent_file:
  "files (fst (main R inp w)) CONSENT_CSV =
     (if btn_submit_consent inp \<and> consent_given inp
      then save_to_csv R (consent_record inp) CONSENT_CSV (files w) CONSENT_CSV
      else files w CONSENT_CSV)"
  by (simp add: fst_main tab_files save_to_csv_other paths_distinct)

lemma main_demographic_file:
  "files (fst (main R inp w)) DEMOGRAPHIC_CSV =
     (if submitted inp
      then save_to_csv R (demographic_record inp) DEMOGRAPHIC_CSV (files w) DEMOGRAPHIC_CSV
      else files w DEMOGRAPHIC_CSV)"
  by (simp add: fst_main tab_files save_to_csv_other save_to_csv_same paths_distinct)

lemma main_task_file:
  "files (fst (main R inp w)) TASK_CSV =
     (if btn_save inp
      then save_to_csv R (task_record inp (timer_buttons inp (session_state w) ''task_duration''))
             TASK_CSV (files w) TASK_CSV
      else files w TASK_CSV)"
  by (simp add: fst_main tab_files tab_session_state save_to_csv_other save_to_csv_same
      paths_distinct)

lemma main_exit_file:
  "files (fst (main R inp w)) EXIT_CSV =
     (if submitted_exit inp
      then save_to_csv R (exit_record inp) EXIT_CSV (files w) EXIT_CSV
      else files w EXIT_CSV)"
  by (simp add: fst_main tab_files save_to_csv_other save_to_csv_same paths_distinct)

lemma main_shown_consent:
  "btn_submit_consent inp \<Longrightarrow> \<not> consent_given inp \<Longrightarrow>
   Warning ''You must agree to the consent terms before proceeding.'' \<in> set (fst (snd (main R inp w)))"
  by (simp add: main_def consent_tab_def Let_def case_prod_beta)

lemma session_consent_unchanged:
  "list_all (\<lambda>inp. \<not> consent_given inp) inps \<Longrightarrow>
     files (session R inps w) CONSENT_CSV = files w CONSENT_CSV"
  by (induction inps arbitrary: w) (simp_all add: main_consent_file)

text \<open>
  \<^bold>\<open>C2.\<close> In a session in which every run presses "Submit Consent" with the checkbox
  unchecked, however many runs there are and whatever else they do, the consent store at
  the end is what it was at the start; and each such run, from any world, shows the
  warning and leaves the consent store alone.
\<close>

theorem unchecked_consent_never_appends:
  "(\<forall>inp \<in> set inps. btn_submit_consent inp \<and> \<not> consent_given inp) \<longrightarrow>
     files (session R inps w) CONSENT_CSV = files w CONSENT_CSV
     \<and> (\<forall>inp \<in> set inps. \<forall>w'.
          Warning ''You must agree to the consent terms before proceeding.''
            \<in> set (fst (snd (main R inp w')))
          \<and> files (fst (main R inp w')) CONSENT_CSV = files w' CONSENT_CSV)"
proof (intro impI conjI ballI allI)
  assume pressed: "\<forall>inp \<in> set inps. btn_submit_consent inp \<and> \<not> consent_given inp"
  then have "\<forall>inp \<in> set inps. \<not> consent_given inp"
    by blast
  then have "list_all (\<lambda>inp. \<not> consent_given inp) inps"
    by (simp only: list_all_iff)
  then show "files (session R inps w) CONSENT_CSV = files w CONSENT_CSV"
    by (rule session_consent_unchanged)
next
  fix inp w'
  assume pressed: "\<forall>inp \<in> set inps. btn_submit_consent inp \<and> \<not> consent_given inp"
    and "inp \<in> set inps"
  then have press: "btn_submit_consent inp" and no_tick: "\<not> consent_given inp"
    by blast+
  show "Warning ''You must agree to the consent terms before proceeding.''
          \<in> set (fst (snd (main R inp w')))"
    using press no_tick by (rule main_shown_consent)
  show "files (fst (main R inp w')) CONSENT_CSV = files w' CONSENT_CSV"
    using no_tick by (simp add: main_consent_file)
qed

theorem unchecked_consent_never_appends_witness:
  "btn_submit_consent (idle\<lparr>btn_submit_consent := True\<rparr>)
   \<and> \<not> consent_given (idle\<lparr>btn_submit_consent := True\<rparr>)
   \<and> files (session repr_0_or_1_5
        [idle\<lparr>btn_submit_consent := True\<rparr>, idle\<lparr>btn_submit_consent := True\<rparr>] initial_world)
        CONSENT_CSV = None
   \<and> Warning ''You must agree to the consent terms before proceeding.''
        \<in> set (fst (snd (main repr_0_or_1_5 (idle\<lparr>btn_submit_consent := True\<rparr>) initial_world)))"
  using unchecked_consent_never_appends
    [of "[idle\<lparr>btn_submit_consent := True\<rparr>, idle\<lparr>btn_submit_consent := True\<rparr>]"
        repr_0_or_1_5 initial_world]
  by (simp add: idle_def initial_world_def)


section \<open>One record per submit\<close>

lemma records_main_consent:
  "btn_submit_consent inp \<Longrightarrow> consent_given inp \<Longrightarrow> files w CONSENT_CSV \<noteq> Some [] \<Longrightarrow>
   records (files (fst (main R inp w))) CONSENT_CSV
     = records (files w) CONSENT_CSV @ [data_row R (consent_record inp)]"
  using records_save_to_csv [of "files w" CONSENT_CSV R "consent_record inp"]
  by (simp add: records_def main_consent_file)

lemma records_main_demographic:
  "submitted inp \<Longrightarrow> files w DEMOGRAPHIC_CSV \<noteq> Some [] \<Longrightarrow>
   records (files (fst (main R inp w))) DEMOGRAPHIC_CSV
     = records (files w) DEMOGRAPHIC_CSV @ [data_row R (demographic_record inp)]"
  using records_save_to_csv [of "files w" DEMOGRAPHIC_CSV R "demographic_record inp"]
  by (simp add: records_def main_demographic_file)

lemma records_main_task:
  "btn_save inp \<Longrightarrow> files w TASK_CSV \<noteq> Some [] \<Longrightarrow>
   records (files (fst (main R inp w))) TASK_CSV
     = records (files w) TASK_CSV
         @ [data_row R (task_record inp (timer_buttons inp (session_state w) ''task_duration''))]"
  using records_save_to_csv [of "files w" TASK_CSV R
      "task_record inp (timer_buttons inp (session_state w) ''task_duration'')"]
  by (simp add: records_def main_task_file)

lemma records_main_exit:
  "submitted_exit inp \<Longrightarrow> files w EXIT_CSV \<noteq> Some [] \<Longrightarrow>
   records (files (fst (main R inp w))) EXIT_CSV
     = records (files w) EXIT_CSV @ [data_row R (exit_record inp)]"
  using records_save_to_csv [of "files w" EXIT_CSV R "exit_record inp"]
  by (simp add: records_def main_exit_file)

lemma main_consent_not_empty:
  "files w CONSENT_CSV \<noteq> Some [] \<Longrightarrow> files (fst (main R inp w)) CONSENT_CSV \<noteq> Some []"
  by (simp add: main_consent_file save_to_csv_not_empty)

lemma main_demographic_not_empty:
  "files w DEMOGRAPHIC_CSV \<noteq> Some [] \<Longrightarrow> files (fst (main R inp w)) DEMOGRAPHIC_CSV \<noteq> Some []"
  by (simp add: main_demographic_file save_to_csv_not_empty)

lemma main_task_not_empty:
  "files w TASK_CSV \<noteq> Some [] \<Longrightarrow> files (fst (main R inp w)) TASK_CSV \<noteq> Some []"
  by (simp add: main_task_file save_to_csv_not_empty)

lemma main_exit_not_empty:
  "files w EXIT_CSV \<noteq> Some [] \<Longrightarrow> files (fst (main R inp w)) EXIT_CSV \<noteq> Some []"
  by (simp add: main_exit_file save_to_csv_not_empty)

lemma session_replicate_Suc:
  "session R (replicate (Suc k) inp) w = session R (replicate k inp) (fst (main R inp w))"
  by simp

lemma repeat_consent:
  "btn_submit_consent inp \<Longrightarrow> consent_given inp \<Longrightarrow> files w CONSENT_CSV \<noteq> Some [] \<Longrightarrow>
   records (files (session R (replicate k inp) w)) CONSENT_CSV
     = records (files w) CONSENT_CSV @ replicate k (data_row R (consent_record inp))"
proof (induction k arbitrary: w)
  case 0
  show ?case by simp
next
  case (Suc k)
  have "records (files (session R (replicate k inp) (fst (main R inp w)))) CONSENT_CSV
      = records (files (fst (main R inp w))) CONSENT_CSV
          @ replicate k (data_row R (consent_record inp))"
    using Suc.prems by (intro Suc.IH main_consent_not_empty)
  then show ?case
    using Suc.prems by (simp add: records_main_consent replicate_app_Cons_same)
qed

lemma repeat_demographic:
  "submitted inp \<Longrightarrow> files w DEMOGRAPHIC_CSV \<noteq> Some [] \<Longrightarrow>
   records (files (session R (replicate k inp) w)) DEMOGRAPHIC_CSV
     = records (files w) DEMOGRAPHIC_CSV @ replicate k (data_row R (demographic_record inp))"
proof (induction k arbitrary: w)
  case 0
  show ?case by simp
next
  case (Suc k)
  have "records (files (session R (replicate k inp) (fst (main R inp w)))) DEMOGRAPHIC_CSV
      = records (files (fst (main R inp w))) DEMOGRAPHIC_CSV
          @ replicate k (data_row R (demographic_record inp))"
    using Suc.prems by (intro Suc.IH main_demographic_not_empty)
  then show ?case
    using Suc.prems by (simp add: records_main_demographic replicate_app_Cons_same)
qed

lemma repeat_exit:
  "submitted_exit inp \<Longrightarrow> files w EXIT_CSV \<noteq> Some [] \<Longrightarrow>
   records (files (session R (replicate k inp) w)) EXIT_CSV
     = records (files w) EXIT_CSV @ replicate k (data_row R (exit_record inp))"
proof (induction k arbitrary: w)
  case 0
  show ?case by simp
next
  case (Suc k)
  have "records (files (session R (replicate k inp) (fst (main R inp w)))) EXIT_CSV
      = records (files (fst (main R inp w))) EXIT_CSV
          @ replicate k (data_row R (exit_record inp))"
    using Suc.prems by (intro Suc.IH main_exit_not_empty)
  then show ?case
    using Suc.prems by (simp add: records_main_exit replicate_app_Cons_same)
qed

text \<open>After a save the timer is cleared, so a repeated save starts from a cleared timer.\<close>

lemma timer_buttons_cleared:
  "ss ''start_time'' = None \<Longrightarrow> ss ''task_duration'' = None \<Longrightarrow>
   timer_buttons inp ss ''task_duration'' = timer_buttons inp Map.empty ''task_duration''"
  by (simp add: timer_buttons_def Let_def)

lemma main_cleared:
  "btn_save inp \<Longrightarrow>
   session_state (fst (main R inp w)) ''start_time'' = None
   \<and> session_state (fst (main R inp w)) ''task_duration'' = None"
  by (simp add: main_session_state)

lemma repeat_task_cleared:
  "btn_save inp \<Longrightarrow> files w TASK_CSV \<noteq> Some [] \<Longrightarrow>
   session_state w ''start_time'' = None \<Longrightarrow> session_state w ''task_duration'' = None \<Longrightarrow>
   records (files (session R (replicate k inp) w)) TASK_CSV
     = records (files w) TASK_CSV
         @ replicate k (data_row R (task_record inp (timer_buttons inp Map.empty ''task_duration'')))"
proof (induction k arbitrary: w)
  case 0
  show ?case by simp
next
  case (Suc k)
  have "records (files (session R (replicate k inp) (fst (main R inp w)))) TASK_CSV
      = records (files (fst (main R inp w))) TASK_CSV
          @ replicate k (data_row R (task_record inp (timer_buttons inp Map.empty ''task_duration'')))"
    using Suc.prems by (intro Suc.IH main_task_not_empty) (simp_all add: main_cleared)
  moreover have "timer_buttons inp (session_state w) ''task_duration''
      = timer_buttons inp Map.empty ''task_duration''"
    using Suc.prems by (intro timer_buttons_cleared)
  ultimately show ?case
    using Suc.prems by (simp add: records_main_task replicate_app_Cons_same)
qed

lemma repeat_task:
  "btn_save inp \<Longrightarrow> files w TASK_CSV \<noteq> Some [] \<Longrightarrow>
   records (files (session R (replicate (Suc k) inp) w)) TASK_CSV
     = records (files w) TASK_CSV
         @ data_row R (task_record inp (timer_buttons inp (session_state w) ''task_duration''))
         # replicate k (data_row R (task_record inp (timer_buttons inp Map.empty ''task_duration'')))"
  using repeat_task_cleared [of inp "fst (main R inp w)" R k]
  by (simp add: main_cleared main_task_not_empty records_main_task)

text \<open>
  \<^bold>\<open>C6.\<close> For each of the four stages: a run in which the stage's submit is pressed (for
  consent, with the checkbox checked) adds exactly one data line to the stage's store,
  the line of the record that the stage builds; and running the same inputs \<open>k\<close> times
  adds \<open>k\<close> lines, equal ones, whether or not such a line is already there. In the task
  stage the first of the repeated saves carries the duration the session holds and the
  later ones start from the cleared timer. The store is taken to have its header line if
  it exists at all.
\<close>

theorem one_record_per_submit:
  "(btn_submit_consent inp \<and> consent_given inp \<and> files w CONSENT_CSV \<noteq> Some [] \<longrightarrow>
      records (files (fst (main R inp w))) CONSENT_CSV
        = records (files w) CONSENT_CSV @ [data_row R (consent_record inp)]
      \<and> records (files (session R (replicate k inp) w)) CONSENT_CSV
        = records (files w) CONSENT_CSV @ replicate k (data_row R (consent_record inp)))
   \<and> (submitted inp \<and> files w DEMOGRAPHIC_CSV \<noteq> Some [] \<longrightarrow>
      records (files (fst (main R inp w))) DEMOGRAPHIC_CSV
        = records (files w) DEMOGRAPHIC_CSV @ [data_row R (demographic_record inp)]
      \<and> records (files (session R (replicate k inp) w)) DEMOGRAPHIC_CSV
        = records (files w) DEMOGRAPHIC_CSV @ replicate k (data_row R (demographic_record inp)))
   \<and> (btn_save inp \<and> files w TASK_CSV \<noteq> Some [] \<longrightarrow>
      records (files (fst (main R inp w))) TASK_CSV
        = records (files w) TASK_CSV
            @ [data_row R (task_record inp (timer_buttons inp (session_state w) ''task_duration''))]
      \<and> records (files (session R (replicate (Suc k) inp) w)) TASK_CSV
        = records (files w) TASK_CSV
            @ data_row R (task_record inp (timer_buttons inp (session_state w) ''task_duration''))
            # replicate k (data_row R (task_record inp (timer_buttons inp Map.empty ''task_duration''))))
   \<and> (submitted_exit inp \<and> files w EXIT_CSV \<noteq> Some [] \<longrightarrow>
      records (files (fst (main R inp w))) EXIT_CSV
        = records (files w) EXIT_CSV @ [data_row R (exit_record inp)]
      \<and> records (files (session R (replicate k inp) w)) EXIT_CSV
        = records (files w) EXIT_CSV @ replicate k (data_row R (exit_record inp)))"
proof (intro conjI impI)
  assume "btn_submit_consent inp \<and> consent_given inp \<and> files w CONSENT_CSV \<noteq> Some []"
  then have a: "btn_submit_consent inp" and b: "consent_given inp"
    and c: "files w CONSENT_CSV \<noteq> Some []"
    by blast+
  show "records (files (fst (main R inp w))) CONSENT_CSV
        = records (files w) CONSENT_CSV @ [data_row R (consent_record inp)]"
    using a b c by (rule records_main_consent)
  show "records (files (session R (replicate k inp) w)) CONSENT_CSV
        = records (files w) CONSENT_CSV @ replicate k (data_row R (consent_record inp))"
    using a b c by (rule repeat_consent)
next
  assume "submitted inp \<and> files w DEMOGRAPHIC_CSV \<noteq> Some []"
  then have a: "submitted inp" and c: "files w DEMOGRAPHIC_CSV \<noteq> Some []"
    by blast+
  show "records (files (fst (main R inp w))) DEMOGRAPHIC_CSV
        = records (files w) DEMOGRAPHIC_CSV @ [data_row R (demographic_record inp)]"
    using a c by (rule records_main_demographic)
  show "records (files (session R (replicate k inp) w)) DEMOGRAPHIC_CSV
        = records (files w) DEMOGRAPHIC_CSV @ replicate k (data_row R (demographic_record inp))"
    using a c by (rule repeat_demographic)
next
  assume "btn_save inp \<and> files w TASK_CSV \<noteq> Some []"
  then have a: "btn_save inp" and c: "files w TASK_CSV \<noteq> Some []"
    by blast+
  show "records (files (fst (main R inp w))) TASK_CSV
        = records (files w) TASK_CSV
            @ [data_row R (task_record inp (timer_buttons inp (session_state w) ''task_duration''))]"
    using a c by (rule records_main_task)
  show "records (files (session R (replicate (Suc k) inp) w)) TASK_CSV
        = records (files w) TASK_CSV
            @ data_row R (task_record inp (timer_buttons inp (session_state w) ''task_duration''))
            # replicate k (data_row R (task_record inp (timer_buttons inp Map.empty ''task_duration'')))"
    using a c by (rule repeat_task)
next
  assume "submitted_exit inp \<and> files w EXIT_CSV \<noteq> Some []"
  then have a: "submitted_exit inp" and c: "files w EXIT_CSV \<noteq> Some []"
    by blast+
  show "records (files (fst (main R inp w))) EXIT_CSV
        = records (files w) EXIT_CSV @ [data_row R (exit_record inp)]"
    using a c by (rule records_main_exit)
  show "records (files (session R (replicate k inp) w)) EXIT_CSV
        = records (files w) EXIT_CSV @ replicate k (data_row R (exit_record inp))"
    using a c by (rule repeat_exit)
qed

lemma strftime_noon: "strftime noon = ''2024-03-07 12:00:09''"
  by code_simp

lemma presses:
  "press_start (start_at t)" "press_stop (stop_at t)" "press_save save_now"
  "time_start (start_at t) = t" "time_stop (stop_at t) = t"
  "now_task save_now = noon" "selected_task save_now = ''Task 1: Example Task''"
  "success save_now = ''Yes''" "notes save_now = ''''" "btn_save save_now"
  by (simp_all add: press_start_def press_stop_def press_save_def start_at_def stop_at_def
      save_now_def idle_def)

lemma initial_world_fresh:
  "files initial_world p = None" "records (files initial_world) p = []"
  "session_state initial_world k = None"
  by (simp_all add: initial_world_def records_def)

theorem one_record_per_submit_witness:
  "btn_submit_consent all_submit \<and> consent_given all_submit \<and> submitted all_submit
   \<and> btn_save all_submit \<and> submitted_exit all_submit
   \<and> files initial_world CONSENT_CSV \<noteq> Some [] \<and> files initial_world DEMOGRAPHIC_CSV \<noteq> Some []
   \<and> files initial_world TASK_CSV \<noteq> Some [] \<and> files initial_world EXIT_CSV \<noteq> Some []
   \<and> records (files (session repr_0_or_1_5 (replicate 2 all_submit) initial_world)) CONSENT_CSV
       = [[''2024-03-07 12:00:09'', ''True''], [''2024-03-07 12:00:09'', ''True'']]
   \<and> records (files (session repr_0_or_1_5 (replicate 2 all_submit) initial_world)) DEMOGRAPHIC_CSV
       = [[''2024-03-07 12:00:09'', '''', ''0'', '''', ''I've never used these tools''],
          [''2024-03-07 12:00:09'', '''', ''0'', '''', ''I've never used these tools'']]
   \<and> records (files (session repr_0_or_1_5 (replicate (Suc 2) all_submit) initial_world)) TASK_CSV
       = [[''2024-03-07 12:00:09'', ''Task 1: Example Task'', ''Yes'', '''', ''''],
          [''2024-03-07 12:00:09'', ''Task 1: Example Task'', ''Yes'', '''', ''''],
          [''2024-03-07 12:00:09'', ''Task 1: Example Task'', ''Yes'', '''', '''']]
   \<and> records (files (session repr_0_or_1_5 (replicate 2 all_submit) initial_world)) EXIT_CSV
       = [[''2024-03-07 12:00:09'', ''3'', ''3'', ''''], [''2024-03-07 12:00:09'', ''3'', ''3'', '''']]"
proof -
  have stamp: "strftime noon = ''2024-03-07 12:00:09''"
    by code_simp
  have buttons: "btn_submit_consent all_submit" "consent_given all_submit" "submitted all_submit"
    "btn_save all_submit" "submitted_exit all_submit"
    by (simp_all add: all_submit_def idle_def)
  have fresh: "files initial_world CONSENT_CSV \<noteq> Some []"
    "files initial_world DEMOGRAPHIC_CSV \<noteq> Some []"
    "files initial_world TASK_CSV \<noteq> Some []" "files initial_world EXIT_CSV \<noteq> Some []"
    "records (files initial_world) CONSENT_CSV = []"
    "records (files initial_world) DEMOGRAPHIC_CSV = []"
    "records (files initial_world) TASK_CSV = []" "records (files initial_world) EXIT_CSV = []"
    by (simp_all add: initial_world_def records_def)
  have lines:
    "data_row repr_0_or_1_5 (consent_record all_submit) = [''2024-03-07 12:00:09'', ''True'']"
    "data_row repr_0_or_1_5 (demographic_record all_submit)
       = [''2024-03-07 12:00:09'', '''', ''0'', '''', ''I've never used these tools'']"
    "data_row repr_0_or_1_5
       (task_record all_submit (timer_buttons all_submit (session_state initial_world) ''task_duration''))
       = [''2024-03-07 12:00:09'', ''Task 1: Example Task'', ''Yes'', '''', '''']"
    "data_row repr_0_or_1_5 (task_record all_submit (timer_buttons all_submit Map.empty ''task_duration''))
       = [''2024-03-07 12:00:09'', ''Task 1: Example Task'', ''Yes'', '''', '''']"
    "data_row repr_0_or_1_5 (exit_record all_submit) = [''2024-03-07 12:00:09'', ''3'', ''3'', '''']"
    by (simp_all add: data_row_def consent_record_def demographic_record_def task_record_def
        exit_record_def all_submit_def idle_def stamp timer_buttons_def duration_field_def
        initial_world_def str_int_def str_nat.simps digit_char_def)
  show ?thesis
    using one_record_per_submit [of all_submit initial_world repr_0_or_1_5 2]
    by (simp only: buttons fresh lines simp_thms append_Nil replicate_Suc replicate_0
        numeral_2_eq_2 One_nat_def)
qed


section \<open>The consent store only holds consents\<close>

lemma consent_row: "consent_given inp \<Longrightarrow>
  data_row R (consent_record inp) = [strftime (now_consent inp), ''True'']"
  by (simp add: data_row_def consent_record_def)

lemma consent_store_ok_main:
  "consent_store_ok (files w) \<Longrightarrow> consent_store_ok (files (fst (main R inp w)))"
proof (cases "btn_submit_consent inp \<and> consent_given inp")
  case False
  assume "consent_store_ok (files w)"
  with False show ?thesis
    by (auto simp add: consent_store_ok_def records_def main_consent_file)
next
  case True
  assume ok: "consent_store_ok (files w)"
  show ?thesis
  proof (cases "files w CONSENT_CSV")
    case None
    with True show ?thesis
      by (simp add: consent_store_ok_def records_def main_consent_file save_to_csv_same
          consent_row)
  next
    case (Some old)
    with True ok show ?thesis
      by (cases old)
        (simp_all add: consent_store_ok_def records_def main_consent_file save_to_csv_same
          consent_row)
  qed
qed

lemma consent_store_ok_session:
  "consent_store_ok (files w) \<Longrightarrow> consent_store_ok (files (session R inps w))"
  by (induction inps arbitrary: w) (simp_all add: consent_store_ok_main)

lemma consent_store_ok_initial: "consent_store_ok (files initial_world)"
  by (simp add: consent_store_ok_def records_def initial_world_def)

lemma consent_change_needs_tick:
  "files (fst (main R inp w)) CONSENT_CSV \<noteq> files w CONSENT_CSV \<Longrightarrow> consent_given inp"
  by (simp add: main_consent_file split: if_splits)

text \<open>
  \<^bold>\<open>C10.\<close> Every data line of the consent store is a timestamp and the flag \<^verbatim>\<open>True\<close>:
  a session keeps this from any world that has it, so it holds after every session from
  the initial world. A run changes the consent store only with the checkbox checked, and
  then by appending the record whose flag is \<^verbatim>\<open>True\<close>.
\<close>

theorem consent_flag_always_true:
  "(consent_store_ok (files w) \<longrightarrow> consent_store_ok (files (session R inps w)))
   \<and> consent_store_ok (files (session R inps initial_world))
   \<and> (files (fst (main R inp w)) CONSENT_CSV \<noteq> files w CONSENT_CSV \<longrightarrow>
        consent_given inp
        \<and> files (fst (main R inp w)) CONSENT_CSV
            = save_to_csv R [(''timestamp'', PStr (strftime (now_consent inp))),
                             (''consent_given'', PBool True)] CONSENT_CSV (files w) CONSENT_CSV)"
proof (intro conjI impI)
  assume "consent_store_ok (files w)"
  then show "consent_store_ok (files (session R inps w))"
    by (rule consent_store_ok_session)
next
  show "consent_store_ok (files (session R inps initial_world))"
    using consent_store_ok_initial by (rule consent_store_ok_session)
next
  assume changed: "files (fst (main R inp w)) CONSENT_CSV \<noteq> files w CONSENT_CSV"
  then show tick: "consent_given inp"
    by (rule consent_change_needs_tick)
  from changed tick
  show "files (fst (main R inp w)) CONSENT_CSV
      = save_to_csv R [(''timestamp'', PStr (strftime (now_consent inp))),
                       (''consent_given'', PBool True)] CONSENT_CSV (files w) CONSENT_CSV"
    by (simp add: main_consent_file consent_record_def split: if_splits)
qed

theorem consent_flag_always_true_witness:
  "consent_store_ok (files initial_world)
   \<and> consent_store_ok
        (files (session repr_0_or_1_5 [tick_and_submit, idle\<lparr>btn_submit_consent := True\<rparr>]
           initial_world))
   \<and> files (fst (main repr_0_or_1_5 tick_and_submit initial_world)) CONSENT_CSV
       \<noteq> files initial_world CONSENT_CSV
   \<and> consent_given tick_and_submit
   \<and> files (fst (main repr_0_or_1_5 tick_and_submit initial_world)) CONSENT_CSV
       = Some [[''timestamp'', ''consent_given''], [''2024-03-07 12:00:09'', ''True'']]"
proof -
  have changed: "files (fst (main repr_0_or_1_5 tick_and_submit initial_world)) CONSENT_CSV
       \<noteq> files initial_world CONSENT_CSV"
    by (simp add: main_consent_file save_to_csv_same tick_and_submit_def idle_def
        initial_world_fresh)
  have written: "save_to_csv repr_0_or_1_5
        [(''timestamp'', PStr (strftime (now_consent tick_and_submit))),
         (''consent_given'', PBool True)] CONSENT_CSV (files initial_world) CONSENT_CSV
      = Some [[''timestamp'', ''consent_given''], [''2024-03-07 12:00:09'', ''True'']]"
    by (simp add: save_to_csv_same initial_world_fresh data_row_def tick_and_submit_def idle_def
        strftime_noon)
  show ?thesis
    using consent_flag_always_true
      [of initial_world repr_0_or_1_5 "[tick_and_submit, idle\<lparr>btn_submit_consent := True\<rparr>]"
          tick_and_submit]
      changed written consent_store_ok_initial
    by simp
qed


section \<open>The task timer\<close>

lemma timer_start: "press_start inp \<Longrightarrow> timer_buttons inp ss = ss(''start_time'' \<mapsto> time_start inp)"
  by (simp add: timer_buttons_def press_start_def)

lemma timer_stop:
  "press_stop inp \<Longrightarrow> ss ''start_time'' = Some t \<Longrightarrow>
   timer_buttons inp ss = ss(''task_duration'' \<mapsto> float_sub (time_stop inp) t)"
  by (simp add: timer_buttons_def press_stop_def)

lemma timer_stop_unstarted:
  "press_stop inp \<Longrightarrow> ss ''start_time'' = None \<Longrightarrow> timer_buttons inp ss = ss"
  by (simp add: timer_buttons_def press_stop_def)

lemma timer_save: "press_save inp \<Longrightarrow> timer_buttons inp ss = ss"
  by (simp add: timer_buttons_def press_save_def)

lemma main_start:
  "press_start inp \<Longrightarrow>
   session_state (fst (main R inp w)) = (session_state w)(''start_time'' \<mapsto> time_start inp)
   \<and> files (fst (main R inp w)) TASK_CSV = files w TASK_CSV"
  by (simp add: main_session_state main_task_file timer_start) (simp add: press_start_def)

lemma main_stop:
  "press_stop inp \<Longrightarrow> session_state w ''start_time'' = Some t \<Longrightarrow>
   session_state (fst (main R inp w))
     = (session_state w)(''task_duration'' \<mapsto> float_sub (time_stop inp) t)
   \<and> files (fst (main R inp w)) TASK_CSV = files w TASK_CSV"
  by (simp add: main_session_state main_task_file timer_stop) (simp add: press_stop_def)

lemma main_stop_unstarted:
  "press_stop inp \<Longrightarrow> session_state w ''start_time'' = None \<Longrightarrow>
   session_state (fst (main R inp w)) = session_state w
   \<and> files (fst (main R inp w)) TASK_CSV = files w TASK_CSV"
  by (simp add: main_session_state main_task_file timer_stop_unstarted) (simp add: press_stop_def)

lemma main_save:
  "press_save inp \<Longrightarrow> files w TASK_CSV \<noteq> Some [] \<Longrightarrow>
   records (files (fst (main R inp w))) TASK_CSV
     = records (files w) TASK_CSV
         @ [data_row R (task_record inp (session_state w ''task_duration''))]"
  using records_main_task [of inp w R] by (simp add: timer_save) (simp add: press_save_def)

lemma task_row:
  "data_row R (task_record inp duration_val)
     = [strftime (now_task inp), selected_task inp, success inp,
        str_cell R (duration_field duration_val), notes inp]"
  by (simp add: data_row_def task_record_def)

lemma float64_0: "float64 0 = 0"
  by (simp add: float64_def)

lemma start_stop_save:
  assumes "press_start i1" "press_stop i2" "press_save i3" "files w TASK_CSV \<noteq> Some []"
  shows "records (files (session R [i1, i2, i3] w)) TASK_CSV
     = records (files w) TASK_CSV
         @ [[strftime (now_task i3), selected_task i3, success i3,
             str_cell R (duration_field (Some (float_sub (time_stop i2) (time_start i1)))),
             notes i3]]"
proof -
  let ?w1 = "fst (main R i1 w)"
  let ?w2 = "fst (main R i2 ?w1)"
  have s1: "session_state ?w1 ''start_time'' = Some (time_start i1)"
    and f1: "files ?w1 TASK_CSV = files w TASK_CSV"
    using main_start [OF assms(1), of R w] by simp_all
  have s2: "session_state ?w2 ''task_duration'' = Some (float_sub (time_stop i2) (time_start i1))"
    and f2: "files ?w2 TASK_CSV = files ?w1 TASK_CSV"
    using main_stop [OF assms(2) s1] by simp_all
  have "files ?w2 TASK_CSV \<noteq> Some []"
    using assms(4) f1 f2 by simp
  then have "records (files (fst (main R i3 ?w2))) TASK_CSV
      = records (files ?w2) TASK_CSV
          @ [data_row R (task_record i3 (session_state ?w2 ''task_duration''))]"
    using assms(3) by (intro main_save)
  moreover have "records (files ?w2) TASK_CSV = records (files w) TASK_CSV"
    using f1 f2 by (simp add: records_def)
  ultimately show ?thesis
    by (simp add: s2 task_row)
qed

text \<open>
  \<^bold>\<open>C9.\<close> When "Save Task Results" is pressed and the duration the session then holds
  is \<^verbatim>\<open>0.0\<close>, the duration field of the record is the empty string and so is the cell of
  the line appended. This is what happens after a press of start and a press of stop that
  read the same clock value: their difference is \<^verbatim>\<open>0.0\<close>, and the saved line has an empty
  duration.
\<close>

theorem zero_duration_saved_as_empty:
  "(btn_save inp \<and> timer_buttons inp (session_state w) ''task_duration'' = Some 0
      \<and> files w TASK_CSV \<noteq> Some [] \<longrightarrow>
      duration_field (timer_buttons inp (session_state w) ''task_duration'') = PStr ''''
      \<and> records (files (fst (main R inp w))) TASK_CSV
          = records (files w) TASK_CSV
              @ [[strftime (now_task inp), selected_task inp, success inp, '''', notes inp]])
   \<and> (press_start i1 \<and> press_stop i2 \<and> press_save i3 \<and> time_stop i2 = time_start i1
      \<and> files w' TASK_CSV \<noteq> Some [] \<longrightarrow>
      float_sub (time_stop i2) (time_start i1) = 0
      \<and> records (files (session R [i1, i2, i3] w')) TASK_CSV
          = records (files w') TASK_CSV
              @ [[strftime (now_task i3), selected_task i3, success i3, '''', notes i3]])"
proof (intro conjI impI)
  assume h: "btn_save inp \<and> timer_buttons inp (session_state w) ''task_duration'' = Some 0
      \<and> files w TASK_CSV \<noteq> Some []"
  then show "duration_field (timer_buttons inp (session_state w) ''task_duration'') = PStr ''''"
    by (simp add: duration_field_def)
  from h have "records (files (fst (main R inp w))) TASK_CSV
      = records (files w) TASK_CSV
          @ [data_row R (task_record inp (timer_buttons inp (session_state w) ''task_duration''))]"
    by (intro records_main_task) simp_all
  with h show "records (files (fst (main R inp w))) TASK_CSV
          = records (files w) TASK_CSV
              @ [[strftime (now_task inp), selected_task inp, success inp, '''', notes inp]]"
    by (simp add: task_row duration_field_def)
next
  assume h: "press_start i1 \<and> press_stop i2 \<and> press_save i3 \<and> time_stop i2 = time_start i1
      \<and> files w' TASK_CSV \<noteq> Some []"
  then show zero: "float_sub (time_stop i2) (time_start i1) = 0"
    by (simp add: float_sub_def float64_0)
  from h have "records (files (session R [i1, i2, i3] w')) TASK_CSV
     = records (files w') TASK_CSV
         @ [[strftime (now_task i3), selected_task i3, success i3,
             str_cell R (duration_field (Some (float_sub (time_stop i2) (time_start i1)))),
             notes i3]]"
    by (intro start_stop_save) simp_all
  then show "records (files (session R [i1, i2, i3] w')) TASK_CSV
          = records (files w') TASK_CSV
              @ [[strftime (now_task i3), selected_task i3, success i3, '''', notes i3]]"
    by (simp add: zero duration_field_def)
qed

theorem zero_duration_saved_as_empty_witness:
  "btn_save save_now
   \<and> timer_buttons save_now
        (session_state \<lparr>files = Map.empty, session_state = [''task_duration'' \<mapsto> 0]\<rparr>)
        ''task_duration'' = Some 0
   \<and> files \<lparr>files = Map.empty, session_state = [''task_duration'' \<mapsto> 0]\<rparr> TASK_CSV \<noteq> Some []
   \<and> records (files (fst (main repr_0_or_1_5 save_now
          \<lparr>files = Map.empty, session_state = [''task_duration'' \<mapsto> 0]\<rparr>))) TASK_CSV
       = [[''2024-03-07 12:00:09'', ''Task 1: Example Task'', ''Yes'', '''', '''']]
   \<and> press_start (start_at 100) \<and> press_stop (stop_at 100) \<and> press_save save_now
   \<and> time_stop (stop_at 100) = time_start (start_at 100)
   \<and> files initial_world TASK_CSV \<noteq> Some []
   \<and> records (files (session repr_0_or_1_5 [start_at 100, stop_at 100, save_now] initial_world))
        TASK_CSV
       = [[''2024-03-07 12:00:09'', ''Task 1: Example Task'', ''Yes'', '''', '''']]"
proof -
  have stored: "timer_buttons save_now
        (session_state \<lparr>files = Map.empty, session_state = [''task_duration'' \<mapsto> 0]\<rparr>)
        ''task_duration'' = Some 0"
    by (simp add: timer_save presses)
  show ?thesis
    using zero_duration_saved_as_empty
      [of save_now "\<lparr>files = Map.empty, session_state = [''task_duration'' \<mapsto> 0]\<rparr>"
          repr_0_or_1_5 "start_at 100" "stop_at 100" save_now initial_world]
      stored
    by (simp add: presses initial_world_fresh strftime_noon records_def)
qed

text \<open>
  \<^bold>\<open>C3.\<close> The claim: the recorded duration is the stop time minus the start time whenever
  start is followed by stop before save. Here start and stop read the same clock value,
  1700000000: the difference is \<^verbatim>\<open>0.0\<close>, whose text is \<^verbatim>\<open>0.0\<close>, and the line saved has
  the empty string in the duration cell instead.
\<close>

theorem same_clock_reading_drops_duration:
  "float_sub (time_stop (stop_at 1700000000)) (time_start (start_at 1700000000)) = 0
   \<and> repr_0_or_1_5 0 = ''0.0''
   \<and> records (files (session repr_0_or_1_5
         [start_at 1700000000, stop_at 1700000000, save_now] initial_world)) TASK_CSV
       = [[''2024-03-07 12:00:09'', ''Task 1: Example Task'', ''Yes'', '''', '''']]"
  using start_stop_save
    [of "start_at 1700000000" "stop_at 1700000000" save_now initial_world repr_0_or_1_5]
  by (simp add: presses initial_world_fresh strftime_noon float_sub_def float64_0
      duration_field_def repr_0_or_1_5_def)

end
